theory Spec2Isabelle
  imports Main "HOL-Library.Char_ord" "HOL-Library.List_Lexorder"
begin

section \<open>Values, errors and panics\<close>

text \<open>
  The package \<^verbatim>\<open>httpd\<close> is a thin layer over \<^verbatim>\<open>net/http\<close>. Its functions are
  embedded here as HOL functions over an explicit program state. What the Go code leaves
  to its platform (the JSON encoder, the request multiplexer, the transport behind an
  \<^verbatim>\<open>http.ResponseWriter\<close>) is either a parameter of the embedded function or a small
  model that is named as such.

  A Go value of type \<^verbatim>\<open>any\<close>, as far as the package and its tests build one: the
  payloads handed to \<^verbatim>\<open>RespondJSON\<close> are \<^verbatim>\<open>map[string]string\<close> values, a panic
  carries a string. \<open>GoUnsupported\<close> stands for a value of a type that
  \<^verbatim>\<open>encoding/json\<close> rejects (a channel, a function), with the name of its type. A Go
  string is a sequence of bytes, as \<open>string\<close> is here.
\<close>

datatype go_value =
    GoNil
  | GoBool bool
  | GoString string
  | GoStringMap "(string \<times> string) list"
  | GoSlice "go_value list"
  | GoUnsupported string

text \<open>
  A non-nil value of the interface type \<^verbatim>\<open>error\<close> is either some plain error with a
  message (\<^verbatim>\<open>errors.New\<close>, \<^verbatim>\<open>fmt.Errorf\<close>) or a \<^verbatim>\<open>StatusError\<close>, the one type of
  the package with the methods of the interface \<^verbatim>\<open>Error\<close>. The value \<^verbatim>\<open>nil\<close> of type
  \<^verbatim>\<open>error\<close> is \<open>None\<close>, so the type \<^verbatim>\<open>error\<close> is \<open>go_error option\<close>. A status is a Go
  \<^verbatim>\<open>int\<close>; the package stores and passes it on and computes nothing with it, so it is an
  \<open>int\<close> here.
\<close>

datatype go_error =
    ErrorString string
  | IsError StatusError
and StatusError =
    StatusError (err: "go_error option") (isResponseError: bool) (status: int)

datatype panic_value =
    PanicValue go_value
  | NilDereference

text \<open>A call either returns or panics.\<close>

datatype 'a result =
    Return 'a
  | Panic panic_value

text \<open>
  \<^verbatim>\<open>func (e StatusError) Error() string { return e.err.Error() }\<close>: calling the method
  of a nil interface value is a run-time panic.
\<close>

fun error_Error :: "go_error \<Rightarrow> panic_value + string"
  and StatusError_Error :: "StatusError \<Rightarrow> panic_value + string" where
  "error_Error (ErrorString m) = Inr m"
| "error_Error (IsError e) = StatusError_Error e"
| "StatusError_Error (StatusError x b c) =
     (case x of None \<Rightarrow> Inl NilDereference | Some e \<Rightarrow> error_Error e)"

definition StatusError_IsResponseError :: "StatusError \<Rightarrow> bool" where
  "StatusError_IsResponseError e = isResponseError e"

definition StatusError_Status :: "StatusError \<Rightarrow> int" where
  "StatusError_Status e = status e"

text \<open>
  \<^verbatim>\<open>func NewError(status int, err error, isResponseError ...bool) Error\<close>; the variadic
  parameter is the list of the flags passed.
\<close>

definition NewError :: "int \<Rightarrow> go_error option \<Rightarrow> bool list \<Rightarrow> StatusError" where
  "NewError st e flags = StatusError e (0 < length flags \<and> flags ! 0) st"

text \<open>The type assertion \<^verbatim>\<open>err.(Error)\<close>.\<close>

fun as_Error :: "go_error option \<Rightarrow> StatusError option" where
  "as_Error (Some (IsError e)) = Some e"
| "as_Error _ = None"

section \<open>Requests, response writers and the program state\<close>

record request =
  Method :: string
  TLS :: bool
  Host :: string
  RequestURI :: string
  Proto :: string
  RemoteAddr :: string

text \<open>
  The calls of the interface \<^verbatim>\<open>http.ResponseWriter\<close> that change a response:
  \<^verbatim>\<open>Header().Set(k, v)\<close>, \<^verbatim>\<open>WriteHeader(code)\<close> and \<^verbatim>\<open>Write(bytes)\<close>. The transport at
  the end of a chain of writers is modelled by the sequence of the calls that reached it,
  in order; what a server makes of that sequence (a second status line, a status outside
  100..999) is outside the package. The header names the package sets are in canonical
  form already, so \<^verbatim>\<open>Set\<close> stores them as they are written.
\<close>

datatype call =
    HeaderSet string string
  | WriteHeader int
  | Write string

text \<open>
  The records written with \<^verbatim>\<open>log/slog\<close>: the render policy's
  \<^verbatim>\<open>slog.Error("[httpd]", "err", err, "status", status)\<close>, the recover guard's
  \<^verbatim>\<open>slog.Error("[httpd] recovering from panic", "err", err, "trace", ...)\<close> and the
  logger's \<^verbatim>\<open>slog.Info(msg, "from", addr, "status", status, "took", ...)\<close>. The stack
  trace and the elapsed time are left out.
\<close>

datatype log_record =
    ErrorLog "go_error option" int
  | RecoverLog panic_value
  | AccessLog string string int

fun is_AccessLog :: "log_record \<Rightarrow> bool" where
  "is_AccessLog (AccessLog m a c) = True"
| "is_AccessLog _ = False"

text \<open>
  The state: the calls that reached the transport, the \<^verbatim>\<open>int\<close> variables whose address
  was taken (\<^verbatim>\<open>status := 0\<close> in the logger, shared with the \<^verbatim>\<open>responseWriter\<close> through
  \<^verbatim>\<open>&status\<close>), and the log.
\<close>

record state =
  transport :: "call list"
  cells :: "nat \<Rightarrow> int"
  next_cell :: nat
  slog :: "log_record list"

text \<open>
  A value of type \<^verbatim>\<open>http.ResponseWriter\<close>: the transport itself, or a
  \<^verbatim>\<open>responseWriter{w: &w, status: &status}\<close> around another writer, with the address of
  its status variable.
\<close>

datatype writer =
    Transport
  | responseWriter writer nat

definition headers_of :: "call list \<Rightarrow> (string \<rightharpoonup> string)" where
  "headers_of cs =
     fold (\<lambda>c m. case c of HeaderSet k v \<Rightarrow> m(k \<mapsto> v) | _ \<Rightarrow> m) cs Map.empty"

fun writer_Header :: "writer \<Rightarrow> state \<Rightarrow> (string \<rightharpoonup> string)" where
  "writer_Header Transport s = headers_of (transport s)"
| "writer_Header (responseWriter w a) s = writer_Header w s"

fun writer_Header_Set :: "writer \<Rightarrow> string \<Rightarrow> string \<Rightarrow> state \<Rightarrow> state" where
  "writer_Header_Set Transport k v s = s\<lparr>transport := transport s @ [HeaderSet k v]\<rparr>"
| "writer_Header_Set (responseWriter w a) k v s = writer_Header_Set w k v s"

fun writer_Write :: "writer \<Rightarrow> string \<Rightarrow> state \<Rightarrow> (nat \<times> go_error option) \<times> state" where
  "writer_Write Transport b s = ((length b, None), s\<lparr>transport := transport s @ [Write b]\<rparr>)"
| "writer_Write (responseWriter w a) b s = writer_Write w b s"

fun writer_WriteHeader :: "writer \<Rightarrow> int \<Rightarrow> state \<Rightarrow> state" where
  "writer_WriteHeader Transport c s = s\<lparr>transport := transport s @ [WriteHeader c]\<rparr>"
| "writer_WriteHeader (responseWriter w a) c s =
     writer_WriteHeader w c (s\<lparr>cells := (cells s)(a := c)\<rparr>)"

definition slog_write :: "log_record \<Rightarrow> state \<Rightarrow> state" where
  "slog_write l s = s\<lparr>slog := slog s @ [l]\<rparr>"

section \<open>Responding and the render policy\<close>

text \<open>
  \<^verbatim>\<open>Respond\<close> and \<^verbatim>\<open>RespondJSON\<close>. The encoder \<^verbatim>\<open>json.Marshal\<close> is the parameter
  \<open>marshal\<close>; \<open>Inl\<close> is its error.
\<close>

definition Respond :: "writer \<Rightarrow> int \<Rightarrow> string \<Rightarrow> state \<Rightarrow> state" where
  "Respond w st payload s = snd (writer_Write w payload (writer_WriteHeader w st s))"

definition RespondJSON ::
  "(go_value \<Rightarrow> go_error + string) \<Rightarrow> writer \<Rightarrow> int \<Rightarrow> go_value \<Rightarrow> state
     \<Rightarrow> go_error option \<times> state" where
  "RespondJSON marshal w st payload s =
     (case marshal payload of
        Inl e \<Rightarrow> (Some e, s)
      | Inr body \<Rightarrow>
          (None, Respond w st body (writer_Header_Set w ''Content-Type'' ''application/json'' s)))"

text \<open>
  \<^verbatim>\<open>defaultErrorHandler\<close>, in its two steps: the status and the message are resolved from
  the error (with a call of \<^verbatim>\<open>e.Error()\<close> only for an error marked as safe to expose),
  then the error is logged and the body is written. The source does not use the result of
  \<^verbatim>\<open>RespondJSON\<close>.
\<close>

definition resolve :: "go_error option \<Rightarrow> panic_value + (int \<times> string)" where
  "resolve e =
     (case as_Error e of
        None \<Rightarrow> Inr (500, ''internal server error'')
      | Some x \<Rightarrow>
          if StatusError_IsResponseError x
          then (case StatusError_Error x of
                  Inl p \<Rightarrow> Inl p
                | Inr m \<Rightarrow> Inr (StatusError_Status x, m))
          else Inr (StatusError_Status x, ''internal server error''))"

definition defaultErrorHandler ::
  "(go_value \<Rightarrow> go_error + string) \<Rightarrow> writer \<Rightarrow> request \<Rightarrow> go_error option \<Rightarrow> state
     \<Rightarrow> unit result \<times> state" where
  "defaultErrorHandler marshal w r e s =
     (case resolve e of
        Inl p \<Rightarrow> (Panic p, s)
      | Inr (st, resErr) \<Rightarrow>
          (Return (),
           snd (RespondJSON marshal w st (GoStringMap [(''error'', resErr)])
                  (slog_write (ErrorLog e st) s))))"

section \<open>Routes, middleware and the router\<close>

text \<open>
  \<^verbatim>\<open>http.Handler\<close>, \<^verbatim>\<open>Route\<close>, \<^verbatim>\<open>Middleware\<close> and \<^verbatim>\<open>ErrorHandler\<close> as functions on the
  state. The package variable \<^verbatim>\<open>DefaultErrorHandler\<close>, the active render policy, is the
  parameter \<open>deh\<close> of the functions that call it; \<^verbatim>\<open>defaultErrorHandler\<close> is its initial
  value.
\<close>

type_synonym Handler = "writer \<Rightarrow> request \<Rightarrow> state \<Rightarrow> unit result \<times> state"

type_synonym Route = "writer \<Rightarrow> request \<Rightarrow> state \<Rightarrow> go_error option result \<times> state"

type_synonym Middleware = "Handler \<Rightarrow> Handler"

type_synonym ErrorHandler =
  "writer \<Rightarrow> request \<Rightarrow> go_error option \<Rightarrow> state \<Rightarrow> unit result \<times> state"

text \<open>\<^verbatim>\<open>func (r Route) ServeHTTP\<close>: a panic of the route passes through.\<close>

definition Route_ServeHTTP :: "ErrorHandler \<Rightarrow> Route \<Rightarrow> Handler" where
  "Route_ServeHTTP deh rt w req s =
     (case rt w req s of
        (Panic p, s') \<Rightarrow> (Panic p, s')
      | (Return None, s') \<Rightarrow> (Return (), s')
      | (Return (Some e), s') \<Rightarrow> deh w req (Some e) s')"

text \<open>
  \<^verbatim>\<open>LoggerMiddleware\<close>: a fresh variable \<^verbatim>\<open>status := 0\<close>, the wrapper around \<open>w\<close>, the
  downstream call, and the deferred \<^verbatim>\<open>slog.Info\<close>, which runs whether the downstream call
  returns or panics and reads \<^verbatim>\<open>*rw.status\<close> at that time. A panic goes on after it.
\<close>

definition access_message :: "request \<Rightarrow> string" where
  "access_message r =
     ''[httpd] '' @ Method r @ '' '' @ (if TLS r then ''https'' else ''http'') @ ''://''
       @ Host r @ RequestURI r @ '' '' @ Proto r"

definition LoggerMiddleware :: "Handler \<Rightarrow> Handler" where
  "LoggerMiddleware nxt w r s =
     (let a = next_cell s;
          s1 = s\<lparr>cells := (cells s)(a := 0), next_cell := Suc a\<rparr>;
          rw = responseWriter w a;
          (out, s2) = nxt rw r s1
      in (out, slog_write (AccessLog (access_message r) (RemoteAddr r) (cells s2 a)) s2))"

text \<open>
  \<^verbatim>\<open>RecoverMiddleware\<close>: the deferred function recovers a panic of the downstream call
  (from Go 1.21 on, the version the package asks for, \<^verbatim>\<open>recover()\<close> is non-nil for every
  panic), sets the header, logs and calls the active render policy. What that call does,
  a panic of its own included, is the outcome.
\<close>

definition RecoverMiddleware :: "ErrorHandler \<Rightarrow> Handler \<Rightarrow> Handler" where
  "RecoverMiddleware deh nxt w r s =
     (case nxt w r s of
        (Return u, s') \<Rightarrow> (Return u, s')
      | (Panic p, s') \<Rightarrow>
          deh w r (Some (ErrorString ''recovering from panic''))
            (slog_write (RecoverLog p) (writer_Header_Set w ''Connection'' ''close'' s')))"

text \<open>
  The loop of \<^verbatim>\<open>Router.route\<close> and of \<^verbatim>\<open>Router.ServeHTTP\<close>:
  \<^verbatim>\<open>for i := len(mw) - 1; i >= 0; i-- { h = mw[i](h) }\<close>, with \<open>n = i + 1\<close>.
\<close>

fun wrap_loop :: "Middleware list \<Rightarrow> nat \<Rightarrow> Handler \<Rightarrow> Handler" where
  "wrap_loop ms 0 h = h"
| "wrap_loop ms (Suc i) h = wrap_loop ms i ((ms ! i) h)"

text \<open>
  The composition the specification writes \<^verbatim>\<open>m0(m1(...mN-1(H)...))\<close>, to compare the loop
  with.
\<close>

fun nest :: "Middleware list \<Rightarrow> Handler \<Rightarrow> Handler" where
  "nest [] h = h"
| "nest (m # ms) h = m (nest ms h)"

text \<open>
  The router. Its \<^verbatim>\<open>*http.ServeMux\<close> is the list of the registrations made with
  \<^verbatim>\<open>mux.Handle\<close>, in order. How a request is matched against the registered patterns is
  the multiplexer's: \<open>sel\<close> gives the index of the registration that serves a request, if
  any, and \<open>miss\<close> is the multiplexer's own answer (404, 405) otherwise.
\<close>

record Router =
  mux :: "(string \<times> Handler) list"
  mw :: "Middleware list"

definition New :: Router where
  "New = \<lparr>mux = [], mw = []\<rparr>"

definition ServeMux_ServeHTTP ::
  "(string list \<Rightarrow> request \<Rightarrow> nat option) \<Rightarrow> Handler \<Rightarrow> (string \<times> Handler) list \<Rightarrow> Handler" where
  "ServeMux_ServeHTTP sel miss regs w req s =
     (case sel (map fst regs) req of
        None \<Rightarrow> miss w req s
      | Some i \<Rightarrow> if i < length regs then snd (regs ! i) w req s else miss w req s)"

definition Router_route ::
  "ErrorHandler \<Rightarrow> string \<Rightarrow> string \<Rightarrow> Route \<Rightarrow> Middleware list \<Rightarrow> Router \<Rightarrow> Router" where
  "Router_route deh method pattern rt middleware r =
     r\<lparr>mux := mux r @
        [(method @ '' '' @ pattern,
          wrap_loop middleware (length middleware) (Route_ServeHTTP deh rt))]\<rparr>"

definition Router_Delete ::
  "ErrorHandler \<Rightarrow> string \<Rightarrow> Route \<Rightarrow> Middleware list \<Rightarrow> Router \<Rightarrow> Router" where
  "Router_Delete deh pattern rt middleware r = Router_route deh ''DELETE'' pattern rt middleware r"

definition Router_Get ::
  "ErrorHandler \<Rightarrow> string \<Rightarrow> Route \<Rightarrow> Middleware list \<Rightarrow> Router \<Rightarrow> Router" where
  "Router_Get deh pattern rt middleware r = Router_route deh ''GET'' pattern rt middleware r"

definition Router_Patch ::
  "ErrorHandler \<Rightarrow> string \<Rightarrow> Route \<Rightarrow> Middleware list \<Rightarrow> Router \<Rightarrow> Router" where
  "Router_Patch deh pattern rt middleware r = Router_route deh ''PATCH'' pattern rt middleware r"

definition Router_Post ::
  "ErrorHandler \<Rightarrow> string \<Rightarrow> Route \<Rightarrow> Middleware list \<Rightarrow> Router \<Rightarrow> Router" where
  "Router_Post deh pattern rt middleware r = Router_route deh ''POST'' pattern rt middleware r"

definition Router_Put ::
  "ErrorHandler \<Rightarrow> string \<Rightarrow> Route \<Rightarrow> Middleware list \<Rightarrow> Router \<Rightarrow> Router" where
  "Router_Put deh pattern rt middleware r = Router_route deh ''PUT'' pattern rt middleware r"

definition Router_Handle ::
  "ErrorHandler \<Rightarrow> string \<Rightarrow> string \<Rightarrow> Route \<Rightarrow> Middleware list \<Rightarrow> Router \<Rightarrow> Router" where
  "Router_Handle deh method pattern rt middleware r =
     Router_route deh method pattern rt middleware r"

definition Router_Use :: "Middleware list \<Rightarrow> Router \<Rightarrow> Router" where
  "Router_Use middleware r = r\<lparr>mw := mw r @ middleware\<rparr>"

definition Router_ServeHTTP ::
  "(string list \<Rightarrow> request \<Rightarrow> nat option) \<Rightarrow> Handler \<Rightarrow> Router \<Rightarrow> Handler" where
  "Router_ServeHTTP sel miss r w req s =
     wrap_loop (mw r) (length (mw r)) (ServeMux_ServeHTTP sel miss (mux r)) w req s"

section \<open>Handlers as scripts\<close>

text \<open>
  The code of a route or of a handler is not the package's. Where a property depends on
  what that code does to its writer, the code is given by the calls it makes on the writer
  it receives, in order, and by how it ends.
\<close>

fun perform :: "writer \<Rightarrow> call \<Rightarrow> state \<Rightarrow> state" where
  "perform w (HeaderSet k v) s = writer_Header_Set w k v s"
| "perform w (WriteHeader c) s = writer_WriteHeader w c s"
| "perform w (Write b) s = snd (writer_Write w b s)"

definition scripted :: "call list \<Rightarrow> 'a result \<Rightarrow> writer \<Rightarrow> request \<Rightarrow> state \<Rightarrow> 'a result \<times> state" where
  "scripted cs out w req s = (out, fold (perform w) cs s)"

fun status_codes :: "call list \<Rightarrow> int list" where
  "status_codes [] = []"
| "status_codes (WriteHeader c # cs) = c # status_codes cs"
| "status_codes (_ # cs) = status_codes cs"

fun addresses :: "writer \<Rightarrow> nat set" where
  "addresses Transport = {}"
| "addresses (responseWriter w a) = insert a (addresses w)"

section \<open>A model of the encoder\<close>

text \<open>
  \<^verbatim>\<open>json.Marshal\<close> of \<^verbatim>\<open>encoding/json\<close> (Go 1.22) on the values of \<open>go_value\<close>, to have
  the bytes of a body. A string is quoted by the library's \<^verbatim>\<open>appendString\<close> with HTML
  escaping: printable ASCII but for the quote, the backslash and \<^verbatim>\<open><\<close>, \<^verbatim>\<open>>\<close>, \<^verbatim>\<open>&\<close> is
  copied, a well-formed UTF-8 sequence is copied but for U+2028 and U+2029, a byte that
  starts no such sequence becomes the escape of U+FFFD. The keys of a map are sorted. A map or a
  slice here is non-nil.
\<close>

definition byte :: "char \<Rightarrow> nat" where
  "byte c = of_char c"

definition hex :: "nat \<Rightarrow> char" where
  "hex n = ''0123456789abcdef'' ! n"

definition htmlSafe :: "char \<Rightarrow> bool" where
  \<open>htmlSafe c = (0x20 \<le> byte c \<and> byte c < 0x80 \<and> c \<notin> set ''"&<>'' \<and> c \<noteq> CHR 0x5C)\<close>

definition escape_byte :: "char \<Rightarrow> string" where
  \<open>escape_byte c =
     (if c = CHR 0x5C \<or> c = CHR 0x22 then [CHR 0x5C, c]
      else if c = CHR 0x08 then [CHR 0x5C, CHR ''b'']
      else if c = CHR 0x0C then [CHR 0x5C, CHR ''f'']
      else if c = CHR 0x0A then [CHR 0x5C, CHR ''n'']
      else if c = CHR 0x0D then [CHR 0x5C, CHR ''r'']
      else if c = CHR 0x09 then [CHR 0x5C, CHR ''t'']
      else [CHR 0x5C, CHR ''u'', CHR ''0'', CHR ''0'', hex (byte c div 16), hex (byte c mod 16)])\<close>

definition continuation :: "nat \<Rightarrow> nat \<Rightarrow> string \<Rightarrow> nat \<Rightarrow> bool" where
  "continuation lo hi bs i = (i < length bs \<and> lo \<le> byte (bs ! i) \<and> byte (bs ! i) \<le> hi)"

text \<open>
  The length of the UTF-8 sequence at the head of a string, \<open>0\<close> where
  \<^verbatim>\<open>utf8.DecodeRuneInString\<close> answers \<^verbatim>\<open>(RuneError, 1)\<close>.
\<close>

definition rune_size :: "string \<Rightarrow> nat" where
  "rune_size bs =
     (case bs of
        [] \<Rightarrow> 0
      | b # _ \<Rightarrow>
          let c = byte b in
          if c < 0x80 then 1
          else if 0xC2 \<le> c \<and> c \<le> 0xDF then (if continuation 0x80 0xBF bs 1 then 2 else 0)
          else if 0xE0 \<le> c \<and> c \<le> 0xEF then
            (if continuation (if c = 0xE0 then 0xA0 else 0x80) (if c = 0xED then 0x9F else 0xBF) bs 1
                \<and> continuation 0x80 0xBF bs 2 then 3 else 0)
          else if 0xF0 \<le> c \<and> c \<le> 0xF4 then
            (if continuation (if c = 0xF0 then 0x90 else 0x80) (if c = 0xF4 then 0x8F else 0xBF) bs 1
                \<and> continuation 0x80 0xBF bs 2 \<and> continuation 0x80 0xBF bs 3 then 4 else 0)
          else 0)"

fun appendString :: "string \<Rightarrow> string" where
  "appendString [] = []"
| "appendString (b # bs) =
     (if byte b < 0x80 then (if htmlSafe b then [b] else escape_byte b) @ appendString bs
      else
        let n = rune_size (b # bs) in
        if n = 0
          then [CHR 0x5C, CHR ''u'', CHR ''f'', CHR ''f'', CHR ''f'', CHR ''d''] @ appendString bs
        else if take n (b # bs) = [CHR 0xE2, CHR 0x80, CHR 0xA8]
          then [CHR 0x5C, CHR ''u'', CHR ''2'', CHR ''0'', CHR ''2'', CHR ''8'']
                 @ appendString (drop (n - 1) bs)
        else if take n (b # bs) = [CHR 0xE2, CHR 0x80, CHR 0xA9]
          then [CHR 0x5C, CHR ''u'', CHR ''2'', CHR ''0'', CHR ''2'', CHR ''9'']
                 @ appendString (drop (n - 1) bs)
        else take n (b # bs) @ appendString (drop (n - 1) bs))"

definition json_string :: "string \<Rightarrow> string" where
  "json_string s = CHR 0x22 # appendString s @ [CHR 0x22]"

fun join :: "string list \<Rightarrow> string" where
  "join [] = []"
| "join [x] = x"
| "join (x # y # ys) = x @ CHR '','' # join (y # ys)"

fun json_Marshal :: "go_value \<Rightarrow> go_error + string"
  and json_elems :: "go_value list \<Rightarrow> go_error + string list" where
  "json_Marshal GoNil = Inr ''null''"
| "json_Marshal (GoBool b) = Inr (if b then ''true'' else ''false'')"
| "json_Marshal (GoString s) = Inr (json_string s)"
| "json_Marshal (GoStringMap kvs) =
     Inr (CHR ''{''
          # join (map (\<lambda>(k, v). json_string k @ CHR '':'' # json_string v) (sort_key fst kvs))
          @ ''}'')"
| "json_Marshal (GoSlice vs) =
     (case json_elems vs of Inl e \<Rightarrow> Inl e | Inr xs \<Rightarrow> Inr (CHR ''['' # join xs @ '']''))"
| "json_Marshal (GoUnsupported t) = Inl (ErrorString (''json: unsupported type: '' @ t))"
| "json_elems [] = Inr []"
| "json_elems (v # vs) =
     (case json_Marshal v of
        Inl e \<Rightarrow> Inl e
      | Inr x \<Rightarrow> (case json_elems vs of Inl e \<Rightarrow> Inl e | Inr xs \<Rightarrow> Inr (x # xs)))"




section \<open>Fixtures\<close>

text \<open>
  What the tests of the package start from: \<^verbatim>\<open>httptest.NewRecorder()\<close>, a response on
  which nothing was called yet, and \<^verbatim>\<open>httptest.NewRequest("GET", "/test", nil)\<close>.
\<close>

definition NewRecorder :: state where
  "NewRecorder = \<lparr>transport = [], cells = (\<lambda>a. 0), next_cell = 0, slog = []\<rparr>"

definition NewRequest :: request where
  "NewRequest =
     \<lparr>Method = ''GET'', TLS = False, Host = ''example.com'', RequestURI = ''/test'',
      Proto = ''HTTP/1.1'', RemoteAddr = ''192.0.2.1:1234''\<rparr>"

text \<open>
  A middleware of the kind \<^verbatim>\<open>TestMiddleware\<close> registers: it sets a header and calls the
  next handler; this one also sets a header once the next handler has returned.
\<close>

definition marker :: "string \<Rightarrow> Handler \<Rightarrow> Handler" where
  "marker n nxt w r s =
     (case nxt w r (writer_Header_Set w n ''in'' s) of
        (Return u, s') \<Rightarrow> (Return u, writer_Header_Set w n ''out'' s')
      | (Panic p, s') \<Rightarrow> (Panic p, s'))"

text \<open>
  A render policy other than the default one, as the package lets the application set
  (\<^verbatim>\<open>httpd.DefaultErrorHandler = customErrorHandler\<close>): this one logs the error and writes
  nothing.
\<close>

definition customErrorHandler :: ErrorHandler where
  "customErrorHandler w r e s = (Return (), slog_write (ErrorLog e 0) s)"

text \<open>
  The router of the README's example, with one route: \<^verbatim>\<open>r.Use(httpd.LoggerMiddleware)\<close>,
  \<^verbatim>\<open>r.Use(httpd.RecoverMiddleware)\<close>, \<^verbatim>\<open>r.Get(pattern, route)\<close>, under the default render
  policy.
\<close>

definition example_router :: "string \<Rightarrow> Route \<Rightarrow> Router" where
  "example_router pattern rt =
     Router_Get (defaultErrorHandler json_Marshal) pattern rt []
       (Router_Use [RecoverMiddleware (defaultErrorHandler json_Marshal)]
          (Router_Use [LoggerMiddleware] New))"

text \<open>The calls that reached the transport between two states of one request.\<close>

definition calls_since :: "state \<Rightarrow> state \<Rightarrow> call list" where
  "calls_since s s' = drop (length (transport s)) (transport s')"

text \<open>
  A multiplexer for a router with one route, matched by every request of the fixtures, and
  its answer to a request it does not match.
\<close>

definition first_match :: "string list \<Rightarrow> request \<Rightarrow> nat option" where
  "first_match patterns req = (if patterns = [] then None else Some 0)"

definition NotFound :: Handler where
  "NotFound = scripted [WriteHeader 404, Write ''404 page not found''] (Return ())"


section \<open>The error constructor\<close>

text \<open>
  C8. For every status \<open>s\<close>, error \<open>e\<close> and flag \<open>b\<close>, \<^verbatim>\<open>NewError(s, e, b)\<close> is a
  classified error (the type assertion to \<^verbatim>\<open>Error\<close> succeeds on it) whose \<^verbatim>\<open>Status()\<close>
  is \<open>s\<close> unchanged, whose \<^verbatim>\<open>Error()\<close> is that of \<open>e\<close> and whose \<^verbatim>\<open>IsResponseError()\<close>
  is \<open>b\<close>; with the flag omitted, \<^verbatim>\<open>IsResponseError()\<close> is false.
\<close>

theorem NewError_fields:
  "StatusError_Status (NewError s e (b # bs)) = s
   \<and> StatusError_Status (NewError s e []) = s
   \<and> StatusError_Error (NewError s (Some x) (b # bs)) = error_Error x
   \<and> StatusError_Error (NewError s (Some (ErrorString m)) (b # bs)) = Inr m
   \<and> StatusError_IsResponseError (NewError s e (b # bs)) = b
   \<and> StatusError_IsResponseError (NewError s e []) = False
   \<and> as_Error (Some (IsError (NewError s e (b # bs)))) = Some (NewError s e (b # bs))"
  by (simp add: NewError_def StatusError_Status_def StatusError_IsResponseError_def)

section \<open>Writers and scripts\<close>

lemma writer_Header_Set_eq:
  "writer_Header_Set w k v s = s\<lparr>transport := transport s @ [HeaderSet k v]\<rparr>"
  by (induction w arbitrary: s) simp_all

lemma writer_Write_eq:
  "writer_Write w b s = ((length b, None), s\<lparr>transport := transport s @ [Write b]\<rparr>)"
  by (induction w arbitrary: s) simp_all

lemma writer_Header_eq: "writer_Header w s = headers_of (transport s)"
  by (induction w) simp_all

lemma transport_WriteHeader:
  "transport (writer_WriteHeader w c s) = transport s @ [WriteHeader c]"
  by (induction w arbitrary: s) simp_all

lemma slog_WriteHeader: "slog (writer_WriteHeader w c s) = slog s"
  by (induction w arbitrary: s) simp_all

lemma next_cell_WriteHeader: "next_cell (writer_WriteHeader w c s) = next_cell s"
  by (induction w arbitrary: s) simp_all

lemma cells_WriteHeader:
  "cells (writer_WriteHeader w c s) a = (if a \<in> addresses w then c else cells s a)"
  by (induction w arbitrary: s) simp_all

lemmas writer_simps =
  writer_Header_Set_eq writer_Write_eq writer_Header_eq transport_WriteHeader slog_WriteHeader
  next_cell_WriteHeader cells_WriteHeader

lemma transport_fold_perform:
  "transport (fold (perform w) cs s) = transport s @ cs"
proof (induction cs arbitrary: s)
  case Nil
  show ?case by simp
next
  case (Cons c cs)
  show ?case by (cases c) (simp_all add: Cons.IH writer_simps)
qed

lemma slog_fold_perform: "slog (fold (perform w) cs s) = slog s"
proof (induction cs arbitrary: s)
  case Nil
  show ?case by simp
next
  case (Cons c cs)
  show ?case by (cases c) (simp_all add: Cons.IH writer_simps)
qed

lemma next_cell_fold_perform: "next_cell (fold (perform w) cs s) = next_cell s"
proof (induction cs arbitrary: s)
  case Nil
  show ?case by simp
next
  case (Cons c cs)
  show ?case by (cases c) (simp_all add: Cons.IH writer_simps)
qed

lemma cells_fold_perform:
  "cells (fold (perform w) cs s) a =
     (if a \<in> addresses w \<and> status_codes cs \<noteq> [] then last (status_codes cs) else cells s a)"
proof (induction cs arbitrary: s)
  case Nil
  show ?case by simp
next
  case (Cons c cs)
  show ?case by (cases c) (simp_all add: Cons.IH writer_simps)
qed

section \<open>Responding\<close>

lemma headers_of_snoc:
  "headers_of (cs @ [c]) = (case c of HeaderSet k v \<Rightarrow> (headers_of cs)(k \<mapsto> v) | _ \<Rightarrow> headers_of cs)"
  by (cases c) (simp_all add: headers_of_def)

lemma Respond_transport:
  "transport (Respond w st b s) = transport s @ [WriteHeader st, Write b]"
  by (simp add: Respond_def writer_simps)

lemma Respond_slog: "slog (Respond w st b s) = slog s"
  by (simp add: Respond_def writer_simps)

lemma Respond_next_cell: "next_cell (Respond w st b s) = next_cell s"
  by (simp add: Respond_def writer_simps)

lemma Respond_cells:
  "cells (Respond w st b s) a = (if a \<in> addresses w then st else cells s a)"
  by (simp add: Respond_def writer_simps)

lemmas Respond_simps = Respond_transport Respond_slog Respond_next_cell Respond_cells

text \<open>
  C10. When the encoding of the payload fails, \<^verbatim>\<open>RespondJSON\<close> returns the encoder's error
  and the state is the one it was called in: no header was set, no status and no byte was
  written.
\<close>

theorem RespondJSON_failure:
  "marshal v = Inl e \<Longrightarrow> RespondJSON marshal w st v s = (Some e, s)"
  by (simp add: RespondJSON_def)

theorem RespondJSON_failure_witness:
  "json_Marshal (GoSlice [GoUnsupported ''chan int'']) = Inl (ErrorString ''json: unsupported type: chan int'')
   \<and> RespondJSON json_Marshal Transport 200 (GoSlice [GoUnsupported ''chan int'']) NewRecorder
       = (Some (ErrorString ''json: unsupported type: chan int''), NewRecorder)"
  using RespondJSON_failure [of json_Marshal "GoSlice [GoUnsupported ''chan int'']"
      "ErrorString ''json: unsupported type: chan int''" Transport 200 NewRecorder]
  by simp

lemma defaultErrorHandler_Inl:
  "resolve e = Inl p \<Longrightarrow> defaultErrorHandler marshal w r e s = (Panic p, s)"
  by (simp add: defaultErrorHandler_def)

lemma defaultErrorHandler_Inr_fst:
  "resolve e = Inr (st, m) \<Longrightarrow> fst (defaultErrorHandler marshal w r e s) = Return ()"
  by (simp add: defaultErrorHandler_def)

lemma defaultErrorHandler_written:
  assumes "resolve e = Inr (st, m)" and "marshal (GoStringMap [(''error'', m)]) = Inr body"
  shows "transport (snd (defaultErrorHandler marshal w r e s))
           = transport s @ [HeaderSet ''Content-Type'' ''application/json'', WriteHeader st, Write body]"
    and "slog (snd (defaultErrorHandler marshal w r e s)) = slog s @ [ErrorLog e st]"
    and "next_cell (snd (defaultErrorHandler marshal w r e s)) = next_cell s"
    and "cells (snd (defaultErrorHandler marshal w r e s)) a = (if a \<in> addresses w then st else cells s a)"
  using assms
  by (simp_all add: defaultErrorHandler_def RespondJSON_def Respond_simps writer_simps slog_write_def)


lemma error_body: \<open>json_Marshal (GoStringMap [(''error'', m)]) = Inr (''{"error":'' @ json_string m @ ''}'')\<close>
  by (simp add: json_string_def htmlSafe_def byte_def)


section \<open>The render policy\<close>





lemma generic_error_body:
  \<open>json_Marshal (GoStringMap [(''error'', ''internal server error'')]) = Inr ''{"error":"internal server error"}''\<close>
  by (simp add: json_string_def htmlSafe_def byte_def)






section \<open>The route adapter\<close>

text \<open>
  C3. The route adapter calls the active render policy exactly once when the route returns a
  non-nil error, with that error and in the state the route left, and not at all otherwise:
  when the route returns \<^verbatim>\<open>nil\<close> the adapter does nothing more (the state is the one the
  route left), and a panic of the route passes through. Counted by any measure that the
  policy raises by one at each call.
\<close>

theorem Route_ServeHTTP_renders_once:
  "(rt w req s = (Return None, s') \<longrightarrow> Route_ServeHTTP deh rt w req s = (Return (), s'))
   \<and> (rt w req s = (Return (Some e), s') \<longrightarrow>
        Route_ServeHTTP deh rt w req s = deh w req (Some e) s')
   \<and> (rt w req s = (Panic p, s') \<longrightarrow> Route_ServeHTTP deh rt w req s = (Panic p, s'))
   \<and> ((\<forall>w' r' e' t. count (snd (deh w' r' e' t)) = Suc (count t)) \<and> rt w req s = (out, s') \<longrightarrow>
        count (snd (Route_ServeHTTP deh rt w req s))
          = count s' + (case out of Return (Some x) \<Rightarrow> 1 | _ \<Rightarrow> 0))"
proof (intro conjI impI)
  assume "rt w req s = (Return None, s')"
  then show "Route_ServeHTTP deh rt w req s = (Return (), s')"
    by (simp add: Route_ServeHTTP_def)
next
  assume "rt w req s = (Return (Some e), s')"
  then show "Route_ServeHTTP deh rt w req s = deh w req (Some e) s'"
    by (simp add: Route_ServeHTTP_def)
next
  assume "rt w req s = (Panic p, s')"
  then show "Route_ServeHTTP deh rt w req s = (Panic p, s')"
    by (simp add: Route_ServeHTTP_def)
next
  assume h: "(\<forall>w' r' e' t. count (snd (deh w' r' e' t)) = Suc (count t)) \<and> rt w req s = (out, s')"
  show "count (snd (Route_ServeHTTP deh rt w req s))
          = count s' + (case out of Return (Some x) \<Rightarrow> 1 | _ \<Rightarrow> 0)"
  proof (cases out)
    case (Return x)
    with h show ?thesis by (cases x) (simp_all add: Route_ServeHTTP_def)
  next
    case (Panic q)
    with h show ?thesis by (simp add: Route_ServeHTTP_def)
  qed
qed

theorem Route_ServeHTTP_renders_once_witness:
  "scripted [] (Return (Some (ErrorString ''test error''))) Transport NewRequest NewRecorder
     = (Return (Some (ErrorString ''test error'')), NewRecorder)
   \<and> scripted [WriteHeader 200, Write ''index''] (Return None) Transport NewRequest NewRecorder
     = (Return None, fold (perform Transport) [WriteHeader 200, Write ''index''] NewRecorder)
   \<and> (\<forall>w' r' e' t. length (slog (snd (customErrorHandler w' r' e' t))) = Suc (length (slog t)))
   \<and> length (slog (snd (Route_ServeHTTP customErrorHandler
        (scripted [] (Return (Some (ErrorString ''test error'')))) Transport NewRequest NewRecorder)))
      = 1
   \<and> Route_ServeHTTP customErrorHandler (scripted [WriteHeader 200, Write ''index''] (Return None))
        Transport NewRequest NewRecorder
      = (Return (), fold (perform Transport) [WriteHeader 200, Write ''index''] NewRecorder)"
  using Route_ServeHTTP_renders_once [of "scripted [] (Return (Some (ErrorString ''test error'')))"
      Transport NewRequest NewRecorder NewRecorder customErrorHandler "ErrorString ''test error''"
      NilDereference "\<lambda>t. length (slog t)" "Return (Some (ErrorString ''test error''))"]
    Route_ServeHTTP_renders_once [of "scripted [WriteHeader 200, Write ''index''] (Return None)"
      Transport NewRequest NewRecorder
      "fold (perform Transport) [WriteHeader 200, Write ''index''] NewRecorder"
      customErrorHandler "ErrorString ''test error''" NilDereference "\<lambda>t. length (slog t)"
      "Return None"]
  by (simp add: scripted_def customErrorHandler_def slog_write_def NewRecorder_def)

section \<open>The recover guard\<close>

lemma resolve_recovering:
  "resolve (Some (ErrorString ''recovering from panic'')) = Inr (500, ''internal server error'')"
  by (simp add: resolve_def)

lemma RecoverMiddleware_Panic:
  "nxt w r s = (Panic p, s') \<Longrightarrow>
     RecoverMiddleware deh nxt w r s
       = deh w r (Some (ErrorString ''recovering from panic''))
           (slog_write (RecoverLog p) (writer_Header_Set w ''Connection'' ''close'' s'))"
  by (simp add: RecoverMiddleware_def)

lemma RecoverMiddleware_Return:
  "nxt w r s = (Return u, s') \<Longrightarrow> RecoverMiddleware deh nxt w r s = (Return u, s')"
  by (simp add: RecoverMiddleware_def)

lemma RecoverMiddleware_default_fst:
  assumes "nxt w r s = (Panic p, s')"
  shows "fst (RecoverMiddleware (defaultErrorHandler marshal) nxt w r s) = Return ()"
  using assms
  by (simp add: RecoverMiddleware_def defaultErrorHandler_Inr_fst [OF resolve_recovering])

lemma RecoverMiddleware_default:
  assumes "nxt w r s = (Panic p, s')"
  shows \<open>transport (snd (RecoverMiddleware (defaultErrorHandler json_Marshal) nxt w r s))
           = transport s' @ [HeaderSet ''Connection'' ''close'',
               HeaderSet ''Content-Type'' ''application/json'', WriteHeader 500,
               Write ''{"error":"internal server error"}'']\<close>
    and "slog (snd (RecoverMiddleware (defaultErrorHandler json_Marshal) nxt w r s))
           = slog s' @ [RecoverLog p, ErrorLog (Some (ErrorString ''recovering from panic'')) 500]"
    and "next_cell (snd (RecoverMiddleware (defaultErrorHandler json_Marshal) nxt w r s))
           = next_cell s'"
    and "cells (snd (RecoverMiddleware (defaultErrorHandler json_Marshal) nxt w r s)) a
           = (if a \<in> addresses w then 500 else cells s' a)"
  using assms defaultErrorHandler_written [where marshal = json_Marshal,
      OF resolve_recovering generic_error_body]
  by (simp_all add: RecoverMiddleware_def writer_simps slog_write_def)

text \<open>
  C4. When the downstream handler panics, \<^verbatim>\<open>RecoverMiddleware\<close> does not pass the panic on:
  it sets the header \<^verbatim>\<open>Connection: close\<close>, logs, and calls the active render policy with
  the error "recovering from panic"; the outcome is that call's. Under the default policy
  the handler returns normally and the response is 500 with the generic body, the error
  being unclassified. When the downstream handler returns, nothing is added.
\<close>

theorem RecoverMiddleware_recovers:
  \<open>(nxt w r s = (Panic p, s') \<longrightarrow>
      RecoverMiddleware deh nxt w r s
        = deh w r (Some (ErrorString ''recovering from panic''))
            (slog_write (RecoverLog p) (writer_Header_Set w ''Connection'' ''close'' s'))
      \<and> fst (RecoverMiddleware (defaultErrorHandler marshal) nxt w r s) = Return ()
      \<and> transport (snd (RecoverMiddleware (defaultErrorHandler json_Marshal) nxt w r s))
          = transport s' @ [HeaderSet ''Connection'' ''close'',
              HeaderSet ''Content-Type'' ''application/json'', WriteHeader 500,
              Write ''{"error":"internal server error"}'']
      \<and> headers_of (transport (snd (RecoverMiddleware (defaultErrorHandler json_Marshal) nxt w r s)))
            ''Connection'' = Some ''close''
      \<and> slog (snd (RecoverMiddleware (defaultErrorHandler json_Marshal) nxt w r s))
          = slog s' @ [RecoverLog p, ErrorLog (Some (ErrorString ''recovering from panic'')) 500])
   \<and> as_Error (Some (ErrorString ''recovering from panic'')) = None
   \<and> (nxt w r s = (Return u, s') \<longrightarrow> RecoverMiddleware deh nxt w r s = (Return u, s'))\<close>
proof (intro conjI impI)
  assume p: "nxt w r s = (Panic p, s')"
  show "RecoverMiddleware deh nxt w r s
        = deh w r (Some (ErrorString ''recovering from panic''))
            (slog_write (RecoverLog p) (writer_Header_Set w ''Connection'' ''close'' s'))"
    using p by (simp add: RecoverMiddleware_def)
  show "fst (RecoverMiddleware (defaultErrorHandler marshal) nxt w r s) = Return ()"
    using p by (rule RecoverMiddleware_default_fst)
  show \<open>transport (snd (RecoverMiddleware (defaultErrorHandler json_Marshal) nxt w r s))
          = transport s' @ [HeaderSet ''Connection'' ''close'',
              HeaderSet ''Content-Type'' ''application/json'', WriteHeader 500,
              Write ''{"error":"internal server error"}'']\<close>
    using p by (rule RecoverMiddleware_default(1))
  then show "headers_of (transport (snd (RecoverMiddleware (defaultErrorHandler json_Marshal) nxt w r s)))
            ''Connection'' = Some ''close''"
    by (simp add: headers_of_def)
  show "slog (snd (RecoverMiddleware (defaultErrorHandler json_Marshal) nxt w r s))
          = slog s' @ [RecoverLog p, ErrorLog (Some (ErrorString ''recovering from panic'')) 500]"
    using p by (rule RecoverMiddleware_default(2))
next
  show "as_Error (Some (ErrorString ''recovering from panic'')) = None" by simp
next
  assume "nxt w r s = (Return u, s')"
  then show "RecoverMiddleware deh nxt w r s = (Return u, s')"
    by (rule RecoverMiddleware_Return)
qed

theorem RecoverMiddleware_recovers_witness:
  \<open>Route_ServeHTTP (defaultErrorHandler json_Marshal)
       (scripted [] (Panic (PanicValue (GoString ''test panic'')))) Transport NewRequest NewRecorder
     = (Panic (PanicValue (GoString ''test panic'')), NewRecorder)
   \<and> RecoverMiddleware (defaultErrorHandler json_Marshal)
       (Route_ServeHTTP (defaultErrorHandler json_Marshal)
          (scripted [] (Panic (PanicValue (GoString ''test panic'')))))
       Transport NewRequest NewRecorder
     = (Return (),
        NewRecorder\<lparr>transport := [HeaderSet ''Connection'' ''close'',
              HeaderSet ''Content-Type'' ''application/json'', WriteHeader 500,
              Write ''{"error":"internal server error"}''],
           slog := [RecoverLog (PanicValue (GoString ''test panic'')),
             ErrorLog (Some (ErrorString ''recovering from panic'')) 500]\<rparr>)
   \<and> Route_ServeHTTP (defaultErrorHandler json_Marshal)
       (scripted [WriteHeader 200, Write []] (Return None)) Transport NewRequest NewRecorder
     = (Return (), NewRecorder\<lparr>transport := [WriteHeader 200, Write []]\<rparr>)
   \<and> RecoverMiddleware (defaultErrorHandler json_Marshal)
       (Route_ServeHTTP (defaultErrorHandler json_Marshal)
          (scripted [WriteHeader 200, Write []] (Return None)))
       Transport NewRequest NewRecorder
     = (Return (), NewRecorder\<lparr>transport := [WriteHeader 200, Write []]\<rparr>)\<close>
  using RecoverMiddleware_recovers [of
      "Route_ServeHTTP (defaultErrorHandler json_Marshal)
         (scripted [] (Panic (PanicValue (GoString ''test panic''))))"
      Transport NewRequest NewRecorder "PanicValue (GoString ''test panic'')" NewRecorder
      "defaultErrorHandler json_Marshal" json_Marshal "()"]
    RecoverMiddleware_recovers [of
      "Route_ServeHTTP (defaultErrorHandler json_Marshal)
         (scripted [WriteHeader 200, Write []] (Return None))"
      Transport NewRequest NewRecorder NilDereference
      "NewRecorder\<lparr>transport := [WriteHeader 200, Write []]\<rparr>"
      "defaultErrorHandler json_Marshal" json_Marshal "()"]
  by (simp add: Route_ServeHTTP_def scripted_def defaultErrorHandler_def resolve_def
      RespondJSON_def Respond_def slog_write_def NewRecorder_def json_string_def htmlSafe_def byte_def)

section \<open>The logger over the recover guard\<close>

lemma LoggerMiddleware_pair:
  "LoggerMiddleware nxt w r s =
     (fst (nxt (responseWriter w (next_cell s)) r
             (s\<lparr>cells := (cells s)(next_cell s := 0), next_cell := Suc (next_cell s)\<rparr>)),
      slog_write (AccessLog (access_message r) (RemoteAddr r)
          (cells (snd (nxt (responseWriter w (next_cell s)) r
             (s\<lparr>cells := (cells s)(next_cell s := 0), next_cell := Suc (next_cell s)\<rparr>)))
             (next_cell s)))
        (snd (nxt (responseWriter w (next_cell s)) r
             (s\<lparr>cells := (cells s)(next_cell s := 0), next_cell := Suc (next_cell s)\<rparr>))))"
  by (simp add: LoggerMiddleware_def Let_def split: prod.split)

lemma status_codes_append: "status_codes (xs @ ys) = status_codes xs @ status_codes ys"
  by (induction xs rule: status_codes.induct) simp_all

lemma Route_ServeHTTP_scripted:
  "Route_ServeHTTP deh (scripted cs out) w r s =
     (case out of
        Panic p \<Rightarrow> (Panic p, fold (perform w) cs s)
      | Return None \<Rightarrow> (Return (), fold (perform w) cs s)
      | Return (Some e) \<Rightarrow> deh w r (Some e) (fold (perform w) cs s))"
  by (simp add: Route_ServeHTTP_def scripted_def split: result.split option.split)

lemma Logger_Recover_panic:
  assumes "nxt (responseWriter w (next_cell s)) r
             (s\<lparr>cells := (cells s)(next_cell s := 0), next_cell := Suc (next_cell s)\<rparr>)
           = (Panic p, s2)"
  shows "fst (LoggerMiddleware (RecoverMiddleware (defaultErrorHandler json_Marshal) nxt) w r s)
           = Return ()"
    and "slog (snd (LoggerMiddleware (RecoverMiddleware (defaultErrorHandler json_Marshal) nxt) w r s))
           = slog s2 @ [RecoverLog p, ErrorLog (Some (ErrorString ''recovering from panic'')) 500,
                        AccessLog (access_message r) (RemoteAddr r) 500]"
    and \<open>transport (snd (LoggerMiddleware (RecoverMiddleware (defaultErrorHandler json_Marshal) nxt) w r s))
           = transport s2 @ [HeaderSet ''Connection'' ''close'',
               HeaderSet ''Content-Type'' ''application/json'', WriteHeader 500,
               Write ''{"error":"internal server error"}'']\<close>
  using assms RecoverMiddleware_default_fst [where marshal = json_Marshal and nxt = nxt
      and w = "responseWriter w (next_cell s)" and r = r and p = p and s' = s2
      and s = "s\<lparr>cells := (cells s)(next_cell s := 0), next_cell := Suc (next_cell s)\<rparr>"]
    RecoverMiddleware_default [where nxt = nxt
      and w = "responseWriter w (next_cell s)" and r = r and p = p and s' = s2
      and s = "s\<lparr>cells := (cells s)(next_cell s := 0), next_cell := Suc (next_cell s)\<rparr>"]
  by (simp_all add: LoggerMiddleware_pair slog_write_def)

lemma Logger_Recover_cong:
  assumes "nxt (responseWriter w (next_cell s)) r
             (s\<lparr>cells := (cells s)(next_cell s := 0), next_cell := Suc (next_cell s)\<rparr>)
           = nxt' (responseWriter w (next_cell s)) r
             (s\<lparr>cells := (cells s)(next_cell s := 0), next_cell := Suc (next_cell s)\<rparr>)"
  shows "LoggerMiddleware (RecoverMiddleware deh nxt) w r s
           = LoggerMiddleware (RecoverMiddleware deh nxt') w r s"
  using assms by (simp add: LoggerMiddleware_def RecoverMiddleware_def)

lemma example_router_ServeHTTP:
  assumes "sel [''GET '' @ pattern] req = Some 0"
  shows "Router_ServeHTTP sel miss (example_router pattern rt) w req s
           = LoggerMiddleware (RecoverMiddleware (defaultErrorHandler json_Marshal)
               (Route_ServeHTTP (defaultErrorHandler json_Marshal) rt)) w req s"
proof -
  have "Router_ServeHTTP sel miss (example_router pattern rt) w req s
          = LoggerMiddleware (RecoverMiddleware (defaultErrorHandler json_Marshal)
              (ServeMux_ServeHTTP sel miss (mux (example_router pattern rt)))) w req s"
    by (simp add: Router_ServeHTTP_def example_router_def Router_Get_def Router_route_def
        Router_Use_def New_def)
  also have "\<dots> = LoggerMiddleware (RecoverMiddleware (defaultErrorHandler json_Marshal)
               (Route_ServeHTTP (defaultErrorHandler json_Marshal) rt)) w req s"
    using assms
    by (intro Logger_Recover_cong)
      (simp add: ServeMux_ServeHTTP_def example_router_def Router_Get_def Router_route_def
        Router_Use_def New_def)
  finally show ?thesis .
qed

lemma Logger_Recover_Route_returns:
  "fst (LoggerMiddleware (RecoverMiddleware (defaultErrorHandler json_Marshal)
          (Route_ServeHTTP (defaultErrorHandler json_Marshal) (scripted cs (Return None)))) w r s)
     = Return ()"
  "slog (snd (LoggerMiddleware (RecoverMiddleware (defaultErrorHandler json_Marshal)
          (Route_ServeHTTP (defaultErrorHandler json_Marshal) (scripted cs (Return None)))) w r s))
     = slog s @ [AccessLog (access_message r) (RemoteAddr r)
                   (if status_codes cs = [] then 0 else last (status_codes cs))]"
  "transport (snd (LoggerMiddleware (RecoverMiddleware (defaultErrorHandler json_Marshal)
          (Route_ServeHTTP (defaultErrorHandler json_Marshal) (scripted cs (Return None)))) w r s))
     = transport s @ cs"
  by (simp_all add: LoggerMiddleware_pair RecoverMiddleware_def Route_ServeHTTP_scripted
      slog_write_def transport_fold_perform slog_fold_perform cells_fold_perform)

lemma Logger_Recover_Route_rendered:
  assumes "resolve (Some e) = Inr (st, m)"
  shows
  "fst (LoggerMiddleware (RecoverMiddleware (defaultErrorHandler json_Marshal)
          (Route_ServeHTTP (defaultErrorHandler json_Marshal) (scripted cs (Return (Some e))))) w r s)
     = Return ()"
  "slog (snd (LoggerMiddleware (RecoverMiddleware (defaultErrorHandler json_Marshal)
          (Route_ServeHTTP (defaultErrorHandler json_Marshal) (scripted cs (Return (Some e))))) w r s))
     = slog s @ [ErrorLog (Some e) st, AccessLog (access_message r) (RemoteAddr r) st]"
  \<open>transport (snd (LoggerMiddleware (RecoverMiddleware (defaultErrorHandler json_Marshal)
          (Route_ServeHTTP (defaultErrorHandler json_Marshal) (scripted cs (Return (Some e))))) w r s))
     = transport s @ cs @ [HeaderSet ''Content-Type'' ''application/json'', WriteHeader st,
                           Write (''{"error":'' @ json_string m @ ''}'')]\<close>
proof -
  note w = defaultErrorHandler_written [where marshal = json_Marshal, OF assms error_body]
  have f: "\<And>w' t. defaultErrorHandler json_Marshal w' r (Some e) t
             = (Return (), snd (defaultErrorHandler json_Marshal w' r (Some e) t))"
    using defaultErrorHandler_Inr_fst [OF assms, of json_Marshal] by (metis prod.collapse)
  show "fst (LoggerMiddleware (RecoverMiddleware (defaultErrorHandler json_Marshal)
          (Route_ServeHTTP (defaultErrorHandler json_Marshal) (scripted cs (Return (Some e))))) w r s)
     = Return ()"
    by (subst LoggerMiddleware_pair, simp add: RecoverMiddleware_def Route_ServeHTTP_scripted,
        subst f, simp)
  show "slog (snd (LoggerMiddleware (RecoverMiddleware (defaultErrorHandler json_Marshal)
          (Route_ServeHTTP (defaultErrorHandler json_Marshal) (scripted cs (Return (Some e))))) w r s))
     = slog s @ [ErrorLog (Some e) st, AccessLog (access_message r) (RemoteAddr r) st]"
    by (subst LoggerMiddleware_pair, simp add: RecoverMiddleware_def Route_ServeHTTP_scripted,
        subst f, subst f,
        simp add: w slog_write_def transport_fold_perform slog_fold_perform cells_fold_perform)
  show \<open>transport (snd (LoggerMiddleware (RecoverMiddleware (defaultErrorHandler json_Marshal)
          (Route_ServeHTTP (defaultErrorHandler json_Marshal) (scripted cs (Return (Some e))))) w r s))
     = transport s @ cs @ [HeaderSet ''Content-Type'' ''application/json'', WriteHeader st,
                           Write (''{"error":'' @ json_string m @ ''}'')]\<close>
    by (subst LoggerMiddleware_pair, simp add: RecoverMiddleware_def Route_ServeHTTP_scripted,
        subst f,
        simp add: w slog_write_def transport_fold_perform slog_fold_perform cells_fold_perform)
qed

lemma Logger_Recover_Route_panics:
  assumes "out = Panic p \<or> (\<exists>e. out = Return (Some e) \<and> resolve (Some e) = Inl p)"
  shows
  "fst (LoggerMiddleware (RecoverMiddleware (defaultErrorHandler json_Marshal)
          (Route_ServeHTTP (defaultErrorHandler json_Marshal) (scripted cs out))) w r s)
     = Return ()"
  "slog (snd (LoggerMiddleware (RecoverMiddleware (defaultErrorHandler json_Marshal)
          (Route_ServeHTTP (defaultErrorHandler json_Marshal) (scripted cs out))) w r s))
     = slog s @ [RecoverLog p, ErrorLog (Some (ErrorString ''recovering from panic'')) 500,
                 AccessLog (access_message r) (RemoteAddr r) 500]"
  \<open>transport (snd (LoggerMiddleware (RecoverMiddleware (defaultErrorHandler json_Marshal)
          (Route_ServeHTTP (defaultErrorHandler json_Marshal) (scripted cs out))) w r s))
     = transport s @ cs @ [HeaderSet ''Connection'' ''close'',
         HeaderSet ''Content-Type'' ''application/json'', WriteHeader 500,
         Write ''{"error":"internal server error"}'']\<close>
proof -
  let ?rw = "responseWriter w (next_cell s)"
  let ?s1 = "s\<lparr>cells := (cells s)(next_cell s := 0), next_cell := Suc (next_cell s)\<rparr>"
  have p: "Route_ServeHTTP (defaultErrorHandler json_Marshal) (scripted cs out) ?rw r ?s1
             = (Panic p, fold (perform ?rw) cs ?s1)"
    using assms by (auto simp add: Route_ServeHTTP_scripted defaultErrorHandler_Inl)
  note l = Logger_Recover_panic [where nxt = "Route_ServeHTTP (defaultErrorHandler json_Marshal) (scripted cs out)"
      and w = w and r = r and s = s and p = p and ?s2.0 = "fold (perform ?rw) cs ?s1"]
  show "fst (LoggerMiddleware (RecoverMiddleware (defaultErrorHandler json_Marshal)
          (Route_ServeHTTP (defaultErrorHandler json_Marshal) (scripted cs out))) w r s)
     = Return ()"
    using p l(1) by simp
  show "slog (snd (LoggerMiddleware (RecoverMiddleware (defaultErrorHandler json_Marshal)
          (Route_ServeHTTP (defaultErrorHandler json_Marshal) (scripted cs out))) w r s))
     = slog s @ [RecoverLog p, ErrorLog (Some (ErrorString ''recovering from panic'')) 500,
                 AccessLog (access_message r) (RemoteAddr r) 500]"
    using p l(2) by (simp add: slog_fold_perform)
  show \<open>transport (snd (LoggerMiddleware (RecoverMiddleware (defaultErrorHandler json_Marshal)
          (Route_ServeHTTP (defaultErrorHandler json_Marshal) (scripted cs out))) w r s))
     = transport s @ cs @ [HeaderSet ''Connection'' ''close'',
         HeaderSet ''Content-Type'' ''application/json'', WriteHeader 500,
         Write ''{"error":"internal server error"}'']\<close>
    using p l(3) by (simp add: transport_fold_perform)
qed

lemma scripted_outcomes:
  obtains "out = Return None"
  | e st m where "out = Return (Some e)" and "resolve (Some e) = Inr (st, m)"
  | p where "out = Panic p \<or> (\<exists>e. out = Return (Some e) \<and> resolve (Some e) = Inl p)"
proof (cases out)
  case (Return x)
  show ?thesis
  proof (cases x)
    case None
    with Return that(1) show ?thesis by simp
  next
    case (Some e)
    show ?thesis
    proof (cases "resolve (Some e)")
      case (Inl p)
      with Return Some that(3) show ?thesis by blast
    next
      case (Inr b)
      with Return Some that(2) show ?thesis by (cases b) blast
    qed
  qed
next
  case (Panic p)
  with that(3) show ?thesis by blast
qed

text \<open>
  C5, as amended. With \<^verbatim>\<open>LoggerMiddleware\<close> registered before \<^verbatim>\<open>RecoverMiddleware\<close>: whatever
  the handler below them is, when it panics the request ends normally, the logger's record
  is the last one written and carries the status 500 that the recover guard's render wrote;
  when it returns, the logger's record carries what its status variable holds then.
  On the README's router, for every route given by its calls and its outcome (it returns
  \<^verbatim>\<open>nil\<close>, returns an error, or panics), the request adds exactly one record of the logger
  to the log, written last, and its status is the one passed last to \<^verbatim>\<open>WriteHeader\<close>
  during the request, or 0 when \<^verbatim>\<open>WriteHeader\<close> was not called at all.
\<close>

theorem Logger_records_final_status:
  \<open>(nxt (responseWriter w (next_cell s)) req
        (s\<lparr>cells := (cells s)(next_cell s := 0), next_cell := Suc (next_cell s)\<rparr>) = (Panic p, s2)
      \<longrightarrow>
      fst (LoggerMiddleware (RecoverMiddleware (defaultErrorHandler json_Marshal) nxt) w req s)
        = Return ()
      \<and> slog (snd (LoggerMiddleware (RecoverMiddleware (defaultErrorHandler json_Marshal) nxt) w req s))
        = slog s2 @ [RecoverLog p, ErrorLog (Some (ErrorString ''recovering from panic'')) 500,
                     AccessLog (access_message req) (RemoteAddr req) 500]
      \<and> transport (snd (LoggerMiddleware (RecoverMiddleware (defaultErrorHandler json_Marshal) nxt) w req s))
        = transport s2 @ [HeaderSet ''Connection'' ''close'',
            HeaderSet ''Content-Type'' ''application/json'', WriteHeader 500,
            Write ''{"error":"internal server error"}''])
   \<and> (nxt (responseWriter w (next_cell s)) req
        (s\<lparr>cells := (cells s)(next_cell s := 0), next_cell := Suc (next_cell s)\<rparr>) = (Return u, s2)
      \<longrightarrow>
      LoggerMiddleware (RecoverMiddleware (defaultErrorHandler json_Marshal) nxt) w req s
        = (Return u,
           slog_write (AccessLog (access_message req) (RemoteAddr req) (cells s2 (next_cell s))) s2))
   \<and> (sel [''GET '' @ pattern] req = Some 0 \<longrightarrow>
      fst (Router_ServeHTTP sel miss (example_router pattern (scripted cs out)) w req s) = Return ()
      \<and> length (filter is_AccessLog
            (slog (snd (Router_ServeHTTP sel miss (example_router pattern (scripted cs out)) w req s))))
          = Suc (length (filter is_AccessLog (slog s)))
      \<and> last (slog (snd (Router_ServeHTTP sel miss (example_router pattern (scripted cs out)) w req s)))
          = AccessLog (access_message req) (RemoteAddr req)
              (if status_codes (calls_since s
                      (snd (Router_ServeHTTP sel miss (example_router pattern (scripted cs out)) w req s))) = []
               then 0
               else last (status_codes (calls_since s
                      (snd (Router_ServeHTTP sel miss (example_router pattern (scripted cs out)) w req s)))))
      \<and> (out = Panic p \<longrightarrow>
          last (slog (snd (Router_ServeHTTP sel miss (example_router pattern (scripted cs out)) w req s)))
            = AccessLog (access_message req) (RemoteAddr req) 500
          \<and> last (status_codes (calls_since s
                      (snd (Router_ServeHTTP sel miss (example_router pattern (scripted cs out)) w req s))))
            = 500))\<close>
proof (intro conjI impI)
  assume a: "nxt (responseWriter w (next_cell s)) req
        (s\<lparr>cells := (cells s)(next_cell s := 0), next_cell := Suc (next_cell s)\<rparr>) = (Panic p, s2)"
  show "fst (LoggerMiddleware (RecoverMiddleware (defaultErrorHandler json_Marshal) nxt) w req s)
        = Return ()"
    using a by (rule Logger_Recover_panic(1))
  show "slog (snd (LoggerMiddleware (RecoverMiddleware (defaultErrorHandler json_Marshal) nxt) w req s))
        = slog s2 @ [RecoverLog p, ErrorLog (Some (ErrorString ''recovering from panic'')) 500,
                     AccessLog (access_message req) (RemoteAddr req) 500]"
    using a by (rule Logger_Recover_panic(2))
  show \<open>transport (snd (LoggerMiddleware (RecoverMiddleware (defaultErrorHandler json_Marshal) nxt) w req s))
        = transport s2 @ [HeaderSet ''Connection'' ''close'',
            HeaderSet ''Content-Type'' ''application/json'', WriteHeader 500,
            Write ''{"error":"internal server error"}'']\<close>
    using a by (rule Logger_Recover_panic(3))
next
  assume "nxt (responseWriter w (next_cell s)) req
        (s\<lparr>cells := (cells s)(next_cell s := 0), next_cell := Suc (next_cell s)\<rparr>) = (Return u, s2)"
  then show "LoggerMiddleware (RecoverMiddleware (defaultErrorHandler json_Marshal) nxt) w req s
        = (Return u,
           slog_write (AccessLog (access_message req) (RemoteAddr req) (cells s2 (next_cell s))) s2)"
    by (simp add: LoggerMiddleware_def RecoverMiddleware_def)
next
  assume sel: "sel [''GET '' @ pattern] req = Some 0"
  note r = example_router_ServeHTTP [where sel = sel and pattern = pattern and req = req
      and miss = miss and rt = "scripted cs out" and w = w and s = s, OF sel]
  show "fst (Router_ServeHTTP sel miss (example_router pattern (scripted cs out)) w req s) = Return ()"
    unfolding r
    by (rule scripted_outcomes [of out])
      (simp_all add: Logger_Recover_Route_returns Logger_Recover_Route_rendered
        Logger_Recover_Route_panics)
  show "length (filter is_AccessLog
            (slog (snd (Router_ServeHTTP sel miss (example_router pattern (scripted cs out)) w req s))))
          = Suc (length (filter is_AccessLog (slog s)))"
    unfolding r
    by (rule scripted_outcomes [of out])
      (simp_all add: Logger_Recover_Route_returns Logger_Recover_Route_rendered
        Logger_Recover_Route_panics)
  show "last (slog (snd (Router_ServeHTTP sel miss (example_router pattern (scripted cs out)) w req s)))
          = AccessLog (access_message req) (RemoteAddr req)
              (if status_codes (calls_since s
                      (snd (Router_ServeHTTP sel miss (example_router pattern (scripted cs out)) w req s))) = []
               then 0
               else last (status_codes (calls_since s
                      (snd (Router_ServeHTTP sel miss (example_router pattern (scripted cs out)) w req s)))))"
    unfolding r
    by (rule scripted_outcomes [of out])
      (simp_all add: Logger_Recover_Route_returns Logger_Recover_Route_rendered
        Logger_Recover_Route_panics calls_since_def status_codes_append)
next
  assume sel: "sel [''GET '' @ pattern] req = Some 0" and out: "out = Panic p"
  note r = example_router_ServeHTTP [where sel = sel and pattern = pattern and req = req
      and miss = miss and rt = "scripted cs out" and w = w and s = s, OF sel]
  have o: "out = Panic p \<or> (\<exists>e. out = Return (Some e) \<and> resolve (Some e) = Inl p)"
    using out by simp
  show "last (slog (snd (Router_ServeHTTP sel miss (example_router pattern (scripted cs out)) w req s)))
            = AccessLog (access_message req) (RemoteAddr req) 500"
    unfolding r by (simp add: Logger_Recover_Route_panics [OF o])
  show "last (status_codes (calls_since s
                      (snd (Router_ServeHTTP sel miss (example_router pattern (scripted cs out)) w req s))))
            = 500"
    unfolding r
    by (simp add: Logger_Recover_Route_panics [OF o] calls_since_def status_codes_append)
qed

theorem Logger_records_final_status_witness:
  \<open>first_match [''GET '' @ ''/test''] NewRequest = Some 0
   \<and> Route_ServeHTTP (defaultErrorHandler json_Marshal)
        (scripted [] (Panic (PanicValue (GoString ''test panic''))))
        (responseWriter Transport (next_cell NewRecorder)) NewRequest
        (NewRecorder\<lparr>cells := (cells NewRecorder)(next_cell NewRecorder := 0),
           next_cell := Suc (next_cell NewRecorder)\<rparr>)
      = (Panic (PanicValue (GoString ''test panic'')),
         NewRecorder\<lparr>cells := (cells NewRecorder)(next_cell NewRecorder := 0),
           next_cell := Suc (next_cell NewRecorder)\<rparr>)
   \<and> fst (Router_ServeHTTP first_match NotFound
        (example_router ''/test'' (scripted [] (Panic (PanicValue (GoString ''test panic'')))))
        Transport NewRequest NewRecorder) = Return ()
   \<and> slog (snd (Router_ServeHTTP first_match NotFound
        (example_router ''/test'' (scripted [] (Panic (PanicValue (GoString ''test panic'')))))
        Transport NewRequest NewRecorder))
      = [RecoverLog (PanicValue (GoString ''test panic'')),
         ErrorLog (Some (ErrorString ''recovering from panic'')) 500,
         AccessLog ''[httpd] GET http://example.com/test HTTP/1.1'' ''192.0.2.1:1234'' 500]
   \<and> transport (snd (Router_ServeHTTP first_match NotFound
        (example_router ''/test'' (scripted [] (Panic (PanicValue (GoString ''test panic'')))))
        Transport NewRequest NewRecorder))
      = [HeaderSet ''Connection'' ''close'', HeaderSet ''Content-Type'' ''application/json'',
         WriteHeader 500, Write ''{"error":"internal server error"}'']\<close>
  using Logger_records_final_status [where sel = first_match and miss = NotFound
      and pattern = "''/test''" and req = NewRequest and w = Transport and s = NewRecorder
      and cs = "[]" and out = "Panic (PanicValue (GoString ''test panic''))"
      and p = "PanicValue (GoString ''test panic'')"
      and nxt = "Route_ServeHTTP (defaultErrorHandler json_Marshal)
        (scripted [] (Panic (PanicValue (GoString ''test panic''))))"
      and ?s2.0 = "NewRecorder\<lparr>cells := (cells NewRecorder)(next_cell NewRecorder := 0),
           next_cell := Suc (next_cell NewRecorder)\<rparr>"]
    example_router_ServeHTTP [where sel = first_match and miss = NotFound
      and pattern = "''/test''" and req = NewRequest and w = Transport and s = NewRecorder
      and rt = "scripted [] (Panic (PanicValue (GoString ''test panic'')))"]
  by (simp add: first_match_def Route_ServeHTTP_scripted NewRecorder_def NewRequest_def
      access_message_def)

text \<open>
  C5 as stated has the logger record the status actually written for every request. A route
  that writes its body without calling \<^verbatim>\<open>WriteHeader\<close> is logged with the status 0, which
  was not written.
\<close>

theorem Logger_records_unwritten_status:
  "slog (snd (LoggerMiddleware (RecoverMiddleware (defaultErrorHandler json_Marshal)
        (Route_ServeHTTP (defaultErrorHandler json_Marshal)
           (scripted [Write ''index''] (Return None))))
        Transport NewRequest NewRecorder))
     = [AccessLog ''[httpd] GET http://example.com/test HTTP/1.1'' ''192.0.2.1:1234'' 0]
   \<and> transport (snd (LoggerMiddleware (RecoverMiddleware (defaultErrorHandler json_Marshal)
        (Route_ServeHTTP (defaultErrorHandler json_Marshal)
           (scripted [Write ''index''] (Return None))))
        Transport NewRequest NewRecorder))
     = [Write ''index'']
   \<and> status_codes (transport (snd (LoggerMiddleware
        (RecoverMiddleware (defaultErrorHandler json_Marshal)
           (Route_ServeHTTP (defaultErrorHandler json_Marshal)
              (scripted [Write ''index''] (Return None))))
        Transport NewRequest NewRecorder)))
     = []"
  by (simp add: Logger_Recover_Route_returns NewRecorder_def NewRequest_def access_message_def)

section \<open>The response observer\<close>

text \<open>
  C7. For every \<^verbatim>\<open>responseWriter\<close> around a writer \<open>w\<close> with its status variable at \<open>a\<close>, and
  every code \<open>c\<close>: \<^verbatim>\<open>WriteHeader(c)\<close> stores \<open>c\<close> in the variable and calls \<^verbatim>\<open>WriteHeader(c)\<close>
  of \<open>w\<close>, so the call reaches the transport; \<^verbatim>\<open>Write\<close> and \<^verbatim>\<open>Header\<close> are the calls of \<open>w\<close>
  and leave every status variable as it was; after any calls among which there is no
  \<^verbatim>\<open>WriteHeader\<close> the variable is unchanged, and the logger, which starts it at 0, logs 0.
\<close>

theorem responseWriter_observes:
  "writer_WriteHeader (responseWriter w a) c s
     = writer_WriteHeader w c (s\<lparr>cells := (cells s)(a := c)\<rparr>)
   \<and> cells (writer_WriteHeader (responseWriter w a) c s) a = c
   \<and> transport (writer_WriteHeader (responseWriter w a) c s) = transport s @ [WriteHeader c]
   \<and> writer_Write (responseWriter w a) b s = writer_Write w b s
   \<and> cells (snd (writer_Write (responseWriter w a) b s)) = cells s
   \<and> transport (snd (writer_Write (responseWriter w a) b s)) = transport s @ [Write b]
   \<and> writer_Header (responseWriter w a) s = writer_Header w s
   \<and> writer_Header_Set (responseWriter w a) k v s = writer_Header_Set w k v s
   \<and> cells (writer_Header_Set (responseWriter w a) k v s) = cells s
   \<and> (status_codes cs = [] \<longrightarrow>
        cells (fold (perform (responseWriter w a)) cs s) a = cells s a)
   \<and> (status_codes cs = [] \<longrightarrow>
        slog (snd (LoggerMiddleware (scripted cs out) w r s))
          = slog s @ [AccessLog (access_message r) (RemoteAddr r) 0])"
  by (simp add: writer_simps cells_fold_perform LoggerMiddleware_pair scripted_def slog_write_def
      slog_fold_perform)

theorem responseWriter_observes_witness:
  "status_codes [HeaderSet ''X-Test'' ''test'', Write ''test''] = []
   \<and> cells (fold (perform (responseWriter Transport 0))
        [HeaderSet ''X-Test'' ''test'', Write ''test''] NewRecorder) 0 = 0
   \<and> cells (fold (perform (responseWriter Transport 0))
        [HeaderSet ''X-Test'' ''test'', Write ''test'', WriteHeader 200] NewRecorder) 0 = 200
   \<and> slog (snd (LoggerMiddleware
        (scripted [HeaderSet ''X-Test'' ''test'', Write ''test''] (Return ()))
        Transport NewRequest NewRecorder))
      = [AccessLog ''[httpd] GET http://example.com/test HTTP/1.1'' ''192.0.2.1:1234'' 0]"
  using responseWriter_observes [of Transport 0 200 NewRecorder "''test''" "''X-Test''" "''test''"
      "[HeaderSet ''X-Test'' ''test'', Write ''test'']" "Return ()" NewRequest]
  by (simp add: NewRecorder_def NewRequest_def access_message_def)

section \<open>The order of the middleware\<close>

lemma nest_append: "nest (xs @ ys) h = nest xs (nest ys h)"
  by (induction xs) simp_all

lemma wrap_loop_take: "n \<le> length ms \<Longrightarrow> wrap_loop ms n h = nest (take n ms) h"
proof (induction n arbitrary: h)
  case 0
  show ?case by simp
next
  case (Suc i)
  then have i: "i < length ms" by simp
  have "wrap_loop ms (Suc i) h = nest (take i ms) ((ms ! i) h)"
    using Suc by simp
  also have "\<dots> = nest (take i ms @ [ms ! i]) h"
    by (simp add: nest_append)
  also have "\<dots> = nest (take (Suc i) ms) h"
    by (simp add: take_Suc_conv_app_nth [OF i])
  finally show ?case .
qed

lemma wrap_loop_nest: "n = length ms \<Longrightarrow> wrap_loop ms n h = nest ms h"
  by (simp add: wrap_loop_take)

lemma ServeMux_ServeHTTP_last:
  assumes "sel (map fst regs @ [k]) req = Some (length regs)"
  shows "ServeMux_ServeHTTP sel miss (regs @ [(k, h)]) w req s = h w req s"
  using assms by (simp add: ServeMux_ServeHTTP_def)

lemma marker_apply:
  "marker n nxt w r s =
     (case nxt w r (writer_Header_Set w n ''in'' s) of
        (Return u, s') \<Rightarrow> (Return u, writer_Header_Set w n ''out'' s')
      | (Panic p, s') \<Rightarrow> (Panic p, s'))"
  by (simp add: marker_def)

lemma nest_marker:
  "nest (map marker ns) h w r s =
     (case h w r (fold (perform w) (map (\<lambda>n. HeaderSet n ''in'') ns) s) of
        (Return u, s') \<Rightarrow> (Return u, fold (perform w) (map (\<lambda>n. HeaderSet n ''out'') (rev ns)) s')
      | (Panic p, s') \<Rightarrow> (Panic p, s'))"
proof (induction ns arbitrary: s)
  case Nil
  show ?case by (simp split: prod.split result.split)
next
  case (Cons n ns)
  have step: "nest (map marker (n # ns)) h w r s =
      (case nest (map marker ns) h w r (writer_Header_Set w n ''in'' s) of
         (Return u, s') \<Rightarrow> (Return u, writer_Header_Set w n ''out'' s')
       | (Panic p, s') \<Rightarrow> (Panic p, s'))"
    by (simp only: list.map nest.simps marker_apply)
  show ?case
    unfolding step Cons.IH by (simp split: prod.split result.split)
qed

text \<open>
  C2. The loop of \<^verbatim>\<open>route\<close> and \<^verbatim>\<open>ServeHTTP\<close> builds \<^verbatim>\<open>m0(m1(...(h)...))\<close>. \<^verbatim>\<open>Use\<close> appends
  to the router's list. A request is served by \<^verbatim>\<open>g0(g1(...(mux)...))\<close> over the router's list,
  and the multiplexer, on a request it resolves to a route registered with the middleware
  \<^verbatim>\<open>p0, p1, ...\<close>, runs \<^verbatim>\<open>p0(p1(...(route)...))\<close>: the per-route middleware is inside the
  router's. With middleware that mark the response before and after the next handler, the
  marks on the way in are in the order of registration, router-wide first, then the route's
  calls, then the marks on the way out in the reverse order.
\<close>

theorem middleware_order:
  "wrap_loop ms (length ms) h = nest ms h
   \<and> mw (Router_Use ms r) = mw r @ ms
   \<and> mux (Router_Use ms r) = mux r
   \<and> mw (Router_route deh verb pattern rt ps r) = mw r
   \<and> mux (Router_route deh verb pattern rt ps r)
       = mux r @ [(verb @ '' '' @ pattern, nest ps (Route_ServeHTTP deh rt))]
   \<and> Router_ServeHTTP sel miss r w req s = nest (mw r) (ServeMux_ServeHTTP sel miss (mux r)) w req s
   \<and> (sel (map fst (mux r) @ [verb @ '' '' @ pattern]) req = Some (length (mux r)) \<longrightarrow>
        ServeMux_ServeHTTP sel miss (mux (Router_route deh verb pattern rt ps r)) w req s
          = nest ps (Route_ServeHTTP deh rt) w req s)
   \<and> ((\<forall>q. sel (map fst (mux r) @ [verb @ '' '' @ pattern]) q = Some (length (mux r))) \<longrightarrow>
        Router_ServeHTTP sel miss (Router_route deh verb pattern rt ps r) w req s
          = nest (mw r @ ps) (Route_ServeHTTP deh rt) w req s)
   \<and> (sel (map fst (mux r) @ [verb @ '' '' @ pattern]) req = Some (length (mux r))
        \<and> mw r = map marker gs \<longrightarrow>
        Router_ServeHTTP sel miss
            (Router_route deh verb pattern (scripted cs (Return None)) (map marker ns) r) w req s
          = (Return (),
             fold (perform w)
               (map (\<lambda>n. HeaderSet n ''in'') (gs @ ns) @ cs
                  @ map (\<lambda>n. HeaderSet n ''out'') (rev (gs @ ns))) s))"
proof (intro conjI impI)
  show "wrap_loop ms (length ms) h = nest ms h" by (simp add: wrap_loop_nest)
  show "mw (Router_Use ms r) = mw r @ ms" by (simp add: Router_Use_def)
  show "mux (Router_Use ms r) = mux r" by (simp add: Router_Use_def)
  show "mw (Router_route deh verb pattern rt ps r) = mw r" by (simp add: Router_route_def)
  show "mux (Router_route deh verb pattern rt ps r)
       = mux r @ [(verb @ '' '' @ pattern, nest ps (Route_ServeHTTP deh rt))]"
    by (simp add: Router_route_def wrap_loop_nest)
  show "Router_ServeHTTP sel miss r w req s = nest (mw r) (ServeMux_ServeHTTP sel miss (mux r)) w req s"
    by (simp add: Router_ServeHTTP_def wrap_loop_nest)
next
  assume "sel (map fst (mux r) @ [verb @ '' '' @ pattern]) req = Some (length (mux r))"
  then show "ServeMux_ServeHTTP sel miss (mux (Router_route deh verb pattern rt ps r)) w req s
          = nest ps (Route_ServeHTTP deh rt) w req s"
    by (simp add: Router_route_def wrap_loop_nest ServeMux_ServeHTTP_def)
next
  assume a: "\<forall>q. sel (map fst (mux r) @ [verb @ '' '' @ pattern]) q = Some (length (mux r))"
  have "ServeMux_ServeHTTP sel miss (mux (Router_route deh verb pattern rt ps r))
          = nest ps (Route_ServeHTTP deh rt)"
    using a by (intro ext) (simp add: Router_route_def wrap_loop_nest ServeMux_ServeHTTP_def)
  then show "Router_ServeHTTP sel miss (Router_route deh verb pattern rt ps r) w req s
          = nest (mw r @ ps) (Route_ServeHTTP deh rt) w req s"
    by (simp add: Router_ServeHTTP_def wrap_loop_nest nest_append Router_route_def)
next
  assume a: "sel (map fst (mux r) @ [verb @ '' '' @ pattern]) req = Some (length (mux r))
        \<and> mw r = map marker gs"
  have "Router_ServeHTTP sel miss
            (Router_route deh verb pattern (scripted cs (Return None)) (map marker ns) r) w req s
        = nest (map marker gs) (ServeMux_ServeHTTP sel miss
            (mux r @ [(verb @ '' '' @ pattern,
                nest (map marker ns) (Route_ServeHTTP deh (scripted cs (Return None))))])) w req s"
    using a by (simp add: Router_ServeHTTP_def wrap_loop_nest Router_route_def)
  also have "\<dots> = (Return (),
             fold (perform w)
               (map (\<lambda>n. HeaderSet n ''in'') (gs @ ns) @ cs
                  @ map (\<lambda>n. HeaderSet n ''out'') (rev (gs @ ns))) s)"
    using a
    by (simp add: nest_marker ServeMux_ServeHTTP_last Route_ServeHTTP_scripted)
  finally show "Router_ServeHTTP sel miss
            (Router_route deh verb pattern (scripted cs (Return None)) (map marker ns) r) w req s
          = (Return (),
             fold (perform w)
               (map (\<lambda>n. HeaderSet n ''in'') (gs @ ns) @ cs
                  @ map (\<lambda>n. HeaderSet n ''out'') (rev (gs @ ns))) s)" .
qed

theorem middleware_order_witness:
  "first_match (map fst (mux (Router_Use [marker ''A'', marker ''B''] New)) @ [''GET'' @ '' '' @ ''/test''])
       NewRequest
     = Some (length (mux (Router_Use [marker ''A'', marker ''B''] New)))
   \<and> mw (Router_Use [marker ''A'', marker ''B''] New) = map marker [''A'', ''B'']
   \<and> transport (snd (Router_ServeHTTP first_match NotFound
        (Router_route (defaultErrorHandler json_Marshal) ''GET'' ''/test''
           (scripted [WriteHeader 200, Write []] (Return None)) (map marker [''C''])
           (Router_Use [marker ''A'', marker ''B''] New))
        Transport NewRequest NewRecorder))
     = [HeaderSet ''A'' ''in'', HeaderSet ''B'' ''in'', HeaderSet ''C'' ''in'',
        WriteHeader 200, Write [],
        HeaderSet ''C'' ''out'', HeaderSet ''B'' ''out'', HeaderSet ''A'' ''out'']"
  using middleware_order [where r = "Router_Use [marker ''A'', marker ''B''] New"
      and sel = first_match and miss = NotFound and deh = "defaultErrorHandler json_Marshal"
      and verb = "''GET''" and pattern = "''/test''" and req = NewRequest
      and gs = "[''A'', ''B'']" and ns = "[''C'']" and cs = "[WriteHeader 200, Write []]"
      and w = Transport and s = NewRecorder and ms = "[]" and ps = "[]"
      and rt = "scripted [] (Return None)" and h = NotFound]
  by (simp add: Router_Use_def New_def first_match_def NewRecorder_def)

section \<open>The encoding is compact\<close>






























end
